theory Spec2Isabelle
  imports Complex_Main
begin

section \<open>The motor drive consumption delegate\<close>

text \<open>
  A shallow embedding of \<^verbatim>\<open>delegates/motordriveconsumption.py\<close>. The object's
  attributes are the fields of one record, every method takes the record and returns the
  updated one, and an exception is the \<open>Inl\<close> side of the result.

  Python's \<^verbatim>\<open>float\<close> is modelled by \<^typ>\<open>real\<close>: all arithmetic below is exact, and
  nothing here speaks about rounding, overflow, infinities or NaN. The timestamp is a Python
  \<^verbatim>\<open>int\<close>, modelled by \<^typ>\<open>int\<close>.
\<close>

subsection \<open>Constants\<close>

definition MINIMUM_SPEED_MS :: real where
  "MINIMUM_SPEED_MS = 3 / 10"

definition MAXIMUM_SPEED_MS :: real where
  "MAXIMUM_SPEED_MS = 20"

definition BEARING_CHECK_MINIMUM_DISTANCE_M :: real where
  "BEARING_CHECK_MINIMUM_DISTANCE_M = 1"

definition BEARING_CHECK_THRESHOLD_DEGREES :: real where
  "BEARING_CHECK_THRESHOLD_DEGREES = 45"

definition POWER_EMA_MS :: real where
  "POWER_EMA_MS = 3000"

definition WINDOW_SEGMENT_COUNT :: nat where
  "WINDOW_SEGMENT_COUNT = 50"

definition WINDOW_SEGMENT_SIZE_M :: real where
  "WINDOW_SEGMENT_SIZE_M = 37"

definition PREFIX :: string where
  "PREFIX = ''/MotorDrive''"

subsection \<open>State\<close>

datatype error = IndexError | ValueError

text \<open>The dictionary \<^verbatim>\<open>point\<close> with its three keys.\<close>

record point =
  utc_time :: int
  latitude :: real
  longitude :: real

text \<open>
  A segment of the ring is the two-element list \<^verbatim>\<open>[distance, energy]\<close>: a pair, with
  \<open>fst\<close> for index 0 and \<open>snd\<close> for index 1.
\<close>

type_synonym segment = "real \<times> real"

record delegate =
  last_point :: "point option"
  last_bearing :: "real option"
  is_continuous :: bool
  power_ema :: "real option"
  consumption_window :: "segment list"
  consumption_window_index :: nat
  consumption_window_total_distance :: real
  consumption_window_total_energy :: real

text \<open>The constructor \<^verbatim>\<open>__init__\<close>.\<close>

definition init :: delegate where
  "init = \<lparr> last_point = None, last_bearing = None, is_continuous = False,
            power_ema = None,
            consumption_window = replicate WINDOW_SEGMENT_COUNT (0, 0),
            consumption_window_index = 0,
            consumption_window_total_distance = 0,
            consumption_window_total_energy = 0 \<rparr>"

subsection \<open>The rolling window: \<^verbatim>\<open>_accumulate\<close>\<close>

text \<open>
  One pass through the body of \<^verbatim>\<open>while distance > 0\<close>, from the state and the local
  variables \<^verbatim>\<open>distance\<close> and \<^verbatim>\<open>energy\<close> to their values at the end of the body. Reading
  the ring outside its bounds raises \<^verbatim>\<open>IndexError\<close>. The division by \<^verbatim>\<open>distance\<close> is
  only reached with \<^verbatim>\<open>distance > 0\<close>.
\<close>

definition accumulate_body :: "delegate \<Rightarrow> real \<Rightarrow> real \<Rightarrow> error + (delegate \<times> real \<times> real)" where
  "accumulate_body s distance energy =
     (let w = consumption_window s; i = consumption_window_index s in
      if length w \<le> i then Inl IndexError
      else
        let segment_remaining_distance = WINDOW_SEGMENT_SIZE_M - fst (w ! i) in
        if distance < segment_remaining_distance then
          Inr (s\<lparr>consumption_window := w[i := (fst (w ! i) + distance, snd (w ! i) + energy)]\<rparr>,
               0, 0)
        else
          let ratio = segment_remaining_distance / distance;
              w1 = w[i := (fst (w ! i) + segment_remaining_distance,
                           snd (w ! i) + energy * ratio)];
              j = (i + 1) mod WINDOW_SEGMENT_COUNT
          in
          if length w1 \<le> j then Inl IndexError
          else
            Inr (s\<lparr>consumption_window := w1[j := (0, 0)],
                   consumption_window_index := j,
                   consumption_window_total_distance :=
                     consumption_window_total_distance s - fst (w1 ! j),
                   consumption_window_total_energy :=
                     consumption_window_total_energy s - snd (w1 ! j)\<rparr>,
                 distance - segment_remaining_distance,
                 energy - energy * ratio))"

text \<open>
  The number of passes still to come is bounded by this variant: zero once the remaining
  distance is used up, and otherwise one more than the number of whole segments that the
  remaining distance, put after what the write segment holds, would fill.
\<close>

definition loop_variant :: "delegate \<Rightarrow> real \<Rightarrow> nat" where
  "loop_variant s distance =
     (if distance \<le> 0 then 0
      else 1 + nat \<lfloor>(distance
                      + fst (consumption_window s ! consumption_window_index s))
                     / WINDOW_SEGMENT_SIZE_M\<rfloor>)"

lemma accumulate_body_variant:
  assumes "0 < distance" and "accumulate_body s distance energy = Inr (s', distance', energy')"
  shows "loop_variant s' distance' < loop_variant s distance"
proof -
  let ?w = "consumption_window s" and ?i = "consumption_window_index s"
  from assms(2) have i: "?i < length ?w"
    by (auto simp: accumulate_body_def Let_def split: if_splits)
  show ?thesis
  proof (cases "distance < WINDOW_SEGMENT_SIZE_M - fst (?w ! ?i)")
    case True
    with assms i have "distance' = 0"
      by (auto simp: accumulate_body_def Let_def)
    with assms(1) show ?thesis by (simp add: loop_variant_def)
  next
    case False
    let ?j = "(?i + 1) mod WINDOW_SEGMENT_COUNT"
    from False assms i have j: "?j < length ?w"
      and d': "distance' = distance + fst (?w ! ?i) - 37"
      and s': "fst (consumption_window s' ! consumption_window_index s') = 0"
      by (auto simp: accumulate_body_def Let_def WINDOW_SEGMENT_SIZE_M_def split: if_splits)
    from False have ge: "37 \<le> distance + fst (?w ! ?i)"
      by (simp add: WINDOW_SEGMENT_SIZE_M_def)
    have fl: "\<lfloor>(distance + fst (?w ! ?i) - 37) / 37\<rfloor> = \<lfloor>(distance + fst (?w ! ?i)) / 37\<rfloor> - 1"
    proof -
      have eq: "(distance + fst (?w ! ?i) - 37) / 37 = (distance + fst (?w ! ?i)) / 37 - 1"
        by (simp add: field_simps)
      show ?thesis unfolding eq by (rule floor_diff_one)
    qed
    have pos: "1 \<le> \<lfloor>(distance + fst (?w ! ?i)) / 37\<rfloor>"
      using ge by (simp add: le_floor_iff)
    show ?thesis
      using assms(1) d' s' fl pos
      by (simp add: loop_variant_def WINDOW_SEGMENT_SIZE_M_def)
  qed
qed

text \<open>The loop \<^verbatim>\<open>while distance > 0\<close>.\<close>

function accumulate_loop :: "delegate \<Rightarrow> real \<Rightarrow> real \<Rightarrow> error + delegate" where
  "accumulate_loop s distance energy =
     (if distance > 0 then
        (case accumulate_body s distance energy of
           Inl e \<Rightarrow> Inl e
         | Inr (s', distance', energy') \<Rightarrow> accumulate_loop s' distance' energy')
      else Inr s)"
  by pat_completeness auto
termination
  by (relation "measure (\<lambda>(s, distance, energy). loop_variant s distance)")
     (auto simp: accumulate_body_variant)

declare accumulate_loop.simps [simp del]

definition accumulate :: "delegate \<Rightarrow> real \<Rightarrow> real \<Rightarrow> error + delegate" where
  "accumulate s distance energy =
     accumulate_loop
       (s\<lparr>consumption_window_total_distance := consumption_window_total_distance s + distance,
          consumption_window_total_energy := consumption_window_total_energy s + energy\<rparr>)
       distance energy"

subsection \<open>Library functions of Python\<close>

text \<open>
  \<^verbatim>\<open>math.radians\<close>, \<^verbatim>\<open>math.degrees\<close>, \<^verbatim>\<open>math.atan2\<close> (the angle of the point
  \<open>(x, y)\<close> in \<open>(-\<pi>, \<pi>]\<close>, and 0 at the origin), \<^verbatim>\<open>math.sqrt\<close> (which raises
  \<^verbatim>\<open>ValueError\<close> below zero) and the operator \<^verbatim>\<open>%\<close> on floats with a positive
  right operand (the result lies in \<open>[0, y)\<close>).
\<close>

definition radians :: "real \<Rightarrow> real" where
  "radians x = x * (pi / 180)"

definition degrees :: "real \<Rightarrow> real" where
  "degrees x = x * (180 / pi)"

definition atan2 :: "real \<Rightarrow> real \<Rightarrow> real" where
  "atan2 y x =
     (if 0 < x then arctan (y / x)
      else if x < 0 then (if 0 \<le> y then arctan (y / x) + pi else arctan (y / x) - pi)
      else if 0 < y then pi / 2
      else if y < 0 then - (pi / 2)
      else 0)"

definition py_sqrt :: "real \<Rightarrow> error + real" where
  "py_sqrt x = (if x < 0 then Inl ValueError else Inr (sqrt x))"

definition float_mod :: "real \<Rightarrow> real \<Rightarrow> real" where
  "float_mod x y = x - y * of_int \<lfloor>x / y\<rfloor>"

subsection \<open>Geodesy\<close>

definition haversine_distance_in_meter :: "point \<Rightarrow> point \<Rightarrow> error + real" where
  "haversine_distance_in_meter point1 point2 =
     (let R = 6371000;
          phi1 = radians (latitude point1);
          phi2 = radians (latitude point2);
          delta_phi = radians (latitude point2 - latitude point1);
          delta_lambda = radians (longitude point2 - longitude point1);
          a = (sin (delta_phi / 2))\<^sup>2 + cos phi1 * cos phi2 * (sin (delta_lambda / 2))\<^sup>2
      in
      case py_sqrt a of
        Inl e \<Rightarrow> Inl e
      | Inr sqrt_a \<Rightarrow>
          (case py_sqrt (1 - a) of
             Inl e \<Rightarrow> Inl e
           | Inr sqrt_1a \<Rightarrow> Inr (R * (2 * atan2 sqrt_a sqrt_1a))))"

definition bearing_between_points :: "point \<Rightarrow> point \<Rightarrow> real" where
  "bearing_between_points point1 point2 =
     (let phi1 = radians (latitude point1);
          phi2 = radians (latitude point2);
          lambda1 = radians (longitude point1);
          lambda2 = radians (longitude point2);
          y = sin (lambda2 - lambda1) * cos phi2;
          x = cos phi1 * sin phi2 - sin phi1 * cos phi2 * cos (lambda2 - lambda1);
          bearing = atan2 y x
      in float_mod (degrees bearing + 360) 360)"

subsection \<open>The continuity filter: \<^verbatim>\<open>_calculate_distance_traveled\<close>\<close>

text \<open>
  The result is the updated object and the returned distance, \<open>None\<close> for Python's
  \<^verbatim>\<open>None\<close>.
\<close>

definition calculate_distance_traveled ::
    "delegate \<Rightarrow> point \<Rightarrow> int \<Rightarrow> error + (delegate \<times> real option)" where
  "calculate_distance_traveled s pt dt =
     (case last_point s of
        None \<Rightarrow> Inr (s, None)
      | Some lp \<Rightarrow>
          (case haversine_distance_in_meter lp pt of
             Inl e \<Rightarrow> Inl e
           | Inr distance_raw \<Rightarrow>
               let distance_min = MINIMUM_SPEED_MS * (real_of_int dt / 1000) in
               if distance_raw < distance_min then Inr (s\<lparr>is_continuous := False\<rparr>, None)
               else
                 let distance_max = MAXIMUM_SPEED_MS * (real_of_int dt / 1000);
                     s1 = s\<lparr>is_continuous := (distance_raw \<le> distance_max)\<rparr>;
                     distance_clamped = min distance_raw distance_max;
                     bearing = bearing_between_points lp pt
                 in
                 (case last_bearing s1 of
                    None \<Rightarrow> Inr (s1\<lparr>last_bearing := Some bearing\<rparr>, Some distance_clamped)
                  | Some lb \<Rightarrow>
                      let bearing_diff = \<bar>float_mod (bearing - lb + 540) 360 - 180\<bar> in
                      if is_continuous s1
                         \<and> distance_clamped \<ge> BEARING_CHECK_MINIMUM_DISTANCE_M
                         \<and> bearing_diff \<ge> BEARING_CHECK_THRESHOLD_DEGREES
                      then Inr (s1\<lparr>is_continuous := False, last_bearing := None\<rparr>, None)
                      else Inr (s1\<lparr>last_bearing := Some bearing\<rparr>, Some distance_clamped))))"

subsection \<open>The power smoother: \<^verbatim>\<open>_calculate_energy_used\<close>\<close>

definition calculate_energy_used :: "delegate \<Rightarrow> real \<Rightarrow> int \<Rightarrow> delegate \<times> real" where
  "calculate_energy_used s power_w dt =
     (let alpha = 1 - exp (- real_of_int dt / POWER_EMA_MS);
          ema = (case power_ema s of
                   Some pe \<Rightarrow> pe + alpha * (power_w - pe)
                 | None \<Rightarrow> power_w)
      in (s\<lparr>power_ema := Some ema\<rparr>, ema * (real_of_int dt / 1000) / 3600))"

subsection \<open>The estimator: \<^verbatim>\<open>_on_gps_update\<close> and \<^verbatim>\<open>update_values\<close>\<close>

text \<open>
  The four values read from the bus are arguments, \<open>None\<close> for a value that is absent.
  The method's own return value (\<^verbatim>\<open>None\<close> or \<^verbatim>\<open>False\<close>) only tells the idle
  scheduler not to call again and is left out.
\<close>

definition on_gps_update ::
    "delegate \<Rightarrow> real option \<Rightarrow> int option \<Rightarrow> real option \<Rightarrow> real option \<Rightarrow> error + delegate" where
  "on_gps_update s power_w utc lat lon =
     (case (power_w, utc, lat, lon) of
        (Some pw, Some t, Some la, Some lo) \<Rightarrow>
          let pt = \<lparr>utc_time = t, latitude = la, longitude = lo\<rparr>;
              dt = (case last_point s of
                      Some lp \<Rightarrow> (t - utc_time lp + 86400000) mod 86400000
                    | None \<Rightarrow> 0)
          in
          (case calculate_distance_traveled s pt dt of
             Inl e \<Rightarrow> Inl e
           | Inr (s1, distance) \<Rightarrow>
               (case calculate_energy_used s1 pw dt of
                  (s2, energy) \<Rightarrow>
                    (case distance of
                       Some d \<Rightarrow>
                         (case accumulate s2 d energy of
                            Inl e \<Rightarrow> Inl e
                          | Inr s3 \<Rightarrow> Inr (s3\<lparr>last_point := Some pt\<rparr>))
                     | None \<Rightarrow> Inr (s2\<lparr>last_point := Some pt\<rparr>))))
      | _ \<Rightarrow>
          Inr (s\<lparr>is_continuous := False, last_point := None, last_bearing := None,
                 power_ema := None\<rparr>))"

text \<open>The dictionary \<^verbatim>\<open>newvalues\<close> is a map from paths to values.\<close>

definition update_values :: "delegate \<Rightarrow> (string \<rightharpoonup> real) \<Rightarrow> (string \<rightharpoonup> real)" where
  "update_values s newvalues =
     (if consumption_window_total_distance s > 0 then
        newvalues(PREFIX @ ''/Consumption'' \<mapsto>
          consumption_window_total_energy s / (consumption_window_total_distance s / 1000))
      else newvalues)"

subsection \<open>Properties of the window\<close>










text \<open>Sample states: the object after \<^verbatim>\<open>_accumulate(40, 2)\<close> on a new object, and the
  states at the head of the loop on the way there.\<close>

definition after_40 :: delegate where
  "after_40 = init\<lparr>consumption_window := (replicate 50 (0, 0))[0 := (37, 37 / 20), 1 := (3, 3 / 20)],
                    consumption_window_index := 1,
                    consumption_window_total_distance := 40,
                    consumption_window_total_energy := 2\<rparr>"



text \<open>The condition under which the bearing check of the filter rejects a sample that passed
  the minimum speed check: a previous bearing is known, the sample is within the maximum speed,
  its clamped distance is at least one metre and the bearing turned by 45 degrees or more.\<close>

definition bearing_check_rejects :: "delegate \<Rightarrow> point \<Rightarrow> point \<Rightarrow> int \<Rightarrow> real \<Rightarrow> bool" where
  "bearing_check_rejects s lp pt dt distance_raw \<longleftrightarrow>
     (case last_bearing s of
        None \<Rightarrow> False
      | Some lb \<Rightarrow>
          distance_raw \<le> MAXIMUM_SPEED_MS * (real_of_int dt / 1000)
          \<and> BEARING_CHECK_MINIMUM_DISTANCE_M
               \<le> min distance_raw (MAXIMUM_SPEED_MS * (real_of_int dt / 1000))
          \<and> BEARING_CHECK_THRESHOLD_DEGREES
               \<le> \<bar>float_mod (bearing_between_points lp pt - lb + 540) 360 - 180\<bar>)"

text \<open>Sample points and states: the origin; a point a thousandth of a degree to the north of
  it, reported at time \<open>t\<close>; an object that has seen one sample at the origin; an object
  under way that last moved due east; and that object after a sample above the maximum
  speed.\<close>

definition p0 :: point where
  "p0 = \<lparr>utc_time = 0, latitude = 0, longitude = 0\<rparr>"

definition p_north :: "int \<Rightarrow> point" where
  "p_north t = \<lparr>utc_time = t, latitude = 1 / 1000, longitude = 0\<rparr>"

definition moving_40 :: delegate where
  "moving_40 = after_40\<lparr>last_point := Some p0, last_bearing := Some 90,
                          is_continuous := True, power_ema := Some 100\<rparr>"

definition started :: delegate where
  "started = init\<lparr>last_point := Some p0, power_ema := Some 100\<rparr>"

definition clamped_40 :: delegate where
  "clamped_40 = init\<lparr>last_point := Some (p_north 1000), last_bearing := Some 0,
       is_continuous := False, power_ema := Some 100,
       consumption_window :=
         (replicate 50 (0, 0))[0 := (37, 37 / 20), 1 := (23, 3 / 20 + 1 / 36)],
       consumption_window_index := 1,
       consumption_window_total_distance := 60,
       consumption_window_total_energy := 2 + 1 / 36\<rparr>"

subsection \<open>Sums over the ring and single passes\<close>























subsection \<open>Claims about the window\<close>












subsection \<open>Geodesy at the sample points\<close>

text \<open>In exact arithmetic the argument of both square roots lies in \<open>[0, 1]\<close>, so the
  distance never raises.\<close>

lemma haversine_arg_range:
  fixes f1 :: real and f2 :: real and l :: real
  shows "0 \<le> (sin ((f2 - f1) / 2))\<^sup>2 + cos f1 * cos f2 * (sin (l / 2))\<^sup>2
       \<and> (sin ((f2 - f1) / 2))\<^sup>2 + cos f1 * cos f2 * (sin (l / 2))\<^sup>2 \<le> 1"
proof -
  define h where "h = (sin (l / 2))\<^sup>2"
  define u where "u = (sin ((f2 - f1) / 2))\<^sup>2"
  define cd where "cd = cos (f2 - f1)"
  define cs where "cs = cos (f1 + f2)"
  have h0: "0 \<le> h" by (simp add: h_def)
  have h1: "h \<le> 1" using abs_sin_le_one [of "l / 2"] by (simp add: h_def abs_square_le_1)
  have "2 * ((f2 - f1) / 2) = f2 - f1" by simp
  then have "cos (f2 - f1) = cos (2 * ((f2 - f1) / 2))" by (simp only:)
  also have "\<dots> = 1 - 2 * (sin ((f2 - f1) / 2))\<^sup>2" by (rule cos_double_sin)
  finally have u: "u = (1 - cd) / 2" by (simp add: u_def cd_def)
  have c: "cos f1 * cos f2 = (cd + cs) / 2"
    by (simp add: cd_def cs_def cos_diff cos_add)
  have cd: "- 1 \<le> cd" "cd \<le> 1" and cs: "- 1 \<le> cs" "cs \<le> 1"
    by (simp_all add: cd_def cs_def)
  define p where "p = (1 - h) * cd"
  define q where "q = h * cs"
  define a where "a = u + cos f1 * cos f2 * h"
  have a: "2 * a = 1 - p + q"
    unfolding a_def p_def q_def u c by (simp add: field_simps)
  have d1: "p \<le> 1 - h"
    using h1 cd(2) mult_left_mono [of cd 1 "1 - h"] by (simp add: p_def)
  have e2: "- h \<le> q"
    using h0 cs(1) mult_left_mono [of "- 1" cs h] by (simp add: q_def)
  have d2: "- (1 - h) \<le> p"
    using h1 cd(1) mult_left_mono [of "- 1" cd "1 - h"] by (simp add: p_def)
  have e1: "q \<le> h"
    using h0 cs(2) mult_left_mono [of cs 1 h] by (simp add: q_def)
  from a d1 e2 have "0 \<le> a" by linarith
  moreover from a d2 e1 have "a \<le> 1" by linarith
  ultimately have "0 \<le> a \<and> a \<le> 1" ..
  then have "0 \<le> u + cos f1 * cos f2 * h \<and> u + cos f1 * cos f2 * h \<le> 1"
    by (simp only: a_def)
  then show ?thesis by (simp add: u_def h_def)
qed

lemma haversine_never_raises:
  "\<exists>d. haversine_distance_in_meter point1 point2 = Inr d"
proof -
  have "radians (latitude point2 - latitude point1) = radians (latitude point2) - radians (latitude point1)"
    by (simp add: radians_def left_diff_distrib)
  with haversine_arg_range [of "radians (latitude point2)" "radians (latitude point1)"
      "radians (longitude point2 - longitude point1)"]
  show ?thesis
    by (simp add: haversine_distance_in_meter_def py_sqrt_def Let_def not_less)
qed

lemma atan2_sin_cos:
  assumes "- (pi / 2) < t" and "t < pi / 2"
  shows "atan2 (sin t) (cos t) = t"
proof -
  from assms have "0 < cos t" by (rule cos_gt_zero_pi)
  then have "atan2 (sin t) (cos t) = arctan (tan t)"
    by (simp add: atan2_def tan_def)
  with assms show ?thesis by (simp add: arctan_tan)
qed

lemma haversine_north: "haversine_distance_in_meter p0 (p_north t) = Inr (6371 * pi / 180)"
proof -
  let ?t = "pi / 360000"
  have s: "0 < sin ?t" by (intro sin_gt_zero) simp_all
  have c: "0 < cos ?t" by (intro cos_gt_zero_pi) simp_all
  have a: "1 - (sin ?t)\<^sup>2 = (cos ?t)\<^sup>2"
    by (simp add: cos_squared_eq)
  have at: "atan2 (sin ?t) (cos ?t) = ?t"
    by (rule atan2_sin_cos) simp_all
  have le: "\<not> 1 < (sin ?t)\<^sup>2"
    using a zero_le_power2 [of "cos ?t"] by linarith
  have "haversine_distance_in_meter p0 (p_north t) = Inr (6371000 * (2 * atan2 (sin ?t) (cos ?t)))"
    using s c le by (simp add: haversine_distance_in_meter_def p0_def p_north_def radians_def
      py_sqrt_def Let_def a)
  then show ?thesis by (simp add: at)
qed

lemma bearing_north: "bearing_between_points p0 (p_north t) = 0"
proof -
  have "0 < sin (pi / 180000)" by (intro sin_gt_zero) simp_all
  then show ?thesis
    by (simp add: bearing_between_points_def p0_def p_north_def radians_def degrees_def
      atan2_def float_mod_def Let_def)
qed

lemma raw_north_bounds: "70 < 6371 * pi / 180" "6371 * pi / 180 < 142"
  using pi_ge_two pi_less_4 by simp_all

lemma filter_rejects:
  assumes "last_point s = Some lp"
    and "haversine_distance_in_meter lp pt = Inr distance_raw"
    and "MINIMUM_SPEED_MS * (real_of_int dt / 1000) \<le> distance_raw"
    and "bearing_check_rejects s lp pt dt distance_raw"
  shows "calculate_distance_traveled s pt dt
       = Inr (s\<lparr>is_continuous := False, last_bearing := None\<rparr>, None)"
  using assms
  by (auto simp: calculate_distance_traveled_def bearing_check_rejects_def Let_def
      split: option.splits)

lemma filter_accepts:
  assumes "last_point s = Some lp"
    and "haversine_distance_in_meter lp pt = Inr distance_raw"
    and "MINIMUM_SPEED_MS * (real_of_int dt / 1000) \<le> distance_raw"
    and "\<not> bearing_check_rejects s lp pt dt distance_raw"
  shows "calculate_distance_traveled s pt dt
       = Inr (s\<lparr>is_continuous := (distance_raw \<le> MAXIMUM_SPEED_MS * (real_of_int dt / 1000)),
                last_bearing := Some (bearing_between_points lp pt)\<rparr>,
              Some (min distance_raw (MAXIMUM_SPEED_MS * (real_of_int dt / 1000))))"
  using assms
  by (auto simp: calculate_distance_traveled_def bearing_check_rejects_def Let_def
      split: option.splits)

subsection \<open>Claims about the filter, the smoother and the estimator\<close>

text \<open>
  C4 (as amended). The claim as written covers every sample that passes the minimum speed
  check; but such a sample can still be rejected by the bearing check, and then no distance
  is returned and the flag is false (see the counterexample below). What holds: a sample that
  passes the minimum speed check and is not rejected by the bearing check sets
  \<^verbatim>\<open>is_continuous\<close> to whether the raw distance is at most the maximum distance, stores the
  bearing and returns the smaller of the raw and the maximum distance. A sample above the
  maximum speed is never rejected by the bearing check, and \<^verbatim>\<open>_on_gps_update\<close> passes its
  capped distance on to \<^verbatim>\<open>_accumulate\<close>.
\<close>

theorem filter_clamps:
  assumes "last_point s = Some lp"
    and "haversine_distance_in_meter lp pt = Inr distance_raw"
    and "MINIMUM_SPEED_MS * (real_of_int dt / 1000) \<le> distance_raw"
  shows "(\<not> bearing_check_rejects s lp pt dt distance_raw \<longrightarrow>
            calculate_distance_traveled s pt dt
            = Inr (s\<lparr>is_continuous := (distance_raw \<le> MAXIMUM_SPEED_MS * (real_of_int dt / 1000)),
                     last_bearing := Some (bearing_between_points lp pt)\<rparr>,
                   Some (min distance_raw (MAXIMUM_SPEED_MS * (real_of_int dt / 1000)))))
     \<and> (MAXIMUM_SPEED_MS * (real_of_int dt / 1000) < distance_raw \<longrightarrow>
            \<not> bearing_check_rejects s lp pt dt distance_raw
            \<and> (dt = (utc_time pt - utc_time lp + 86400000) mod 86400000 \<longrightarrow>
                 on_gps_update s (Some power_w) (Some (utc_time pt)) (Some (latitude pt))
                   (Some (longitude pt))
                 = (case calculate_energy_used
                           (s\<lparr>is_continuous := False,
                              last_bearing := Some (bearing_between_points lp pt)\<rparr>) power_w dt of
                      (s2, energy) \<Rightarrow>
                        (case accumulate s2 (MAXIMUM_SPEED_MS * (real_of_int dt / 1000)) energy of
                           Inl e \<Rightarrow> Inl e
                         | Inr s3 \<Rightarrow> Inr (s3\<lparr>last_point := Some pt\<rparr>)))))"
proof (intro conjI impI)
  assume "\<not> bearing_check_rejects s lp pt dt distance_raw"
  with assms show "calculate_distance_traveled s pt dt
            = Inr (s\<lparr>is_continuous := (distance_raw \<le> MAXIMUM_SPEED_MS * (real_of_int dt / 1000)),
                     last_bearing := Some (bearing_between_points lp pt)\<rparr>,
                   Some (min distance_raw (MAXIMUM_SPEED_MS * (real_of_int dt / 1000))))"
    by (rule filter_accepts)
next
  assume "MAXIMUM_SPEED_MS * (real_of_int dt / 1000) < distance_raw"
  then show "\<not> bearing_check_rejects s lp pt dt distance_raw"
    by (simp add: bearing_check_rejects_def split: option.splits)
next
  assume fast: "MAXIMUM_SPEED_MS * (real_of_int dt / 1000) < distance_raw"
    and dt: "dt = (utc_time pt - utc_time lp + 86400000) mod 86400000"
  from fast have no: "\<not> bearing_check_rejects s lp pt dt distance_raw"
    by (simp add: bearing_check_rejects_def split: option.splits)
  have pt: "\<lparr>utc_time = utc_time pt, latitude = latitude pt, longitude = longitude pt\<rparr> = pt"
    by simp
  from fast have "calculate_distance_traveled s pt dt
      = Inr (s\<lparr>is_continuous := False, last_bearing := Some (bearing_between_points lp pt)\<rparr>,
             Some (MAXIMUM_SPEED_MS * (real_of_int dt / 1000)))"
    using filter_accepts [OF assms no] by simp
  then show "on_gps_update s (Some power_w) (Some (utc_time pt)) (Some (latitude pt))
                   (Some (longitude pt))
                 = (case calculate_energy_used
                           (s\<lparr>is_continuous := False,
                              last_bearing := Some (bearing_between_points lp pt)\<rparr>) power_w dt of
                      (s2, energy) \<Rightarrow>
                        (case accumulate s2 (MAXIMUM_SPEED_MS * (real_of_int dt / 1000)) energy of
                           Inl e \<Rightarrow> Inl e
                         | Inr s3 \<Rightarrow> Inr (s3\<lparr>last_point := Some pt\<rparr>)))"
    using assms(1) dt by (simp add: on_gps_update_def pt Let_def split: prod.splits)
qed


lemma last_point_moving_40: "last_point moving_40 = Some p0"
  by (simp add: moving_40_def)

lemma energy_moving_40:
  "calculate_energy_used (moving_40\<lparr>is_continuous := False, last_bearing := Some 0\<rparr>) 100 1000
   = (moving_40\<lparr>is_continuous := False, last_bearing := Some 0\<rparr>, 1 / 36)"
  by (simp add: calculate_energy_used_def moving_40_def Let_def)

lemma accumulate_moving_40:
  "accumulate (moving_40\<lparr>is_continuous := False, last_bearing := Some 0\<rparr>) 20 (1 / 36)
   = Inr (clamped_40\<lparr>last_point := Some p0\<rparr>)"
  by (simp add: accumulate_def moving_40_def after_40_def clamped_40_def init_def
      accumulate_loop.simps accumulate_body_def Let_def
      WINDOW_SEGMENT_COUNT_def WINDOW_SEGMENT_SIZE_M_def)

theorem filter_clamps_witness:
  "last_point moving_40 = Some p0
   \<and> haversine_distance_in_meter p0 (p_north 1000) = Inr (6371 * pi / 180)
   \<and> MINIMUM_SPEED_MS * (real_of_int 1000 / 1000) \<le> 6371 * pi / 180
   \<and> MAXIMUM_SPEED_MS * (real_of_int 1000 / 1000) < 6371 * pi / 180
   \<and> \<not> bearing_check_rejects moving_40 p0 (p_north 1000) 1000 (6371 * pi / 180)
   \<and> calculate_distance_traveled moving_40 (p_north 1000) 1000
       = Inr (moving_40\<lparr>is_continuous := False, last_bearing := Some 0\<rparr>, Some 20)
   \<and> on_gps_update moving_40 (Some 100) (Some 1000) (Some (1 / 1000)) (Some 0) = Inr clamped_40"
proof -
  have lo: "MINIMUM_SPEED_MS * (real_of_int 1000 / 1000) \<le> 6371 * pi / 180"
    using raw_north_bounds by (simp add: MINIMUM_SPEED_MS_def)
  have hi: "MAXIMUM_SPEED_MS * (real_of_int 1000 / 1000) < 6371 * pi / 180"
    using raw_north_bounds by (simp add: MAXIMUM_SPEED_MS_def)
  note inst = filter_clamps [OF last_point_moving_40 haversine_north [of 1000] lo, where power_w = 100]
  from inst hi have no: "\<not> bearing_check_rejects moving_40 p0 (p_north 1000) 1000 (6371 * pi / 180)"
    by blast
  with inst hi have calc: "calculate_distance_traveled moving_40 (p_north 1000) 1000
       = Inr (moving_40\<lparr>is_continuous := False, last_bearing := Some 0\<rparr>, Some 20)"
    by (simp add: bearing_north MAXIMUM_SPEED_MS_def)
  have "(1000::int) = (utc_time (p_north 1000) - utc_time p0 + 86400000) mod 86400000"
    by (simp add: p_north_def p0_def)
  with inst hi have "on_gps_update moving_40 (Some 100) (Some (utc_time (p_north 1000)))
        (Some (latitude (p_north 1000))) (Some (longitude (p_north 1000)))
      = (case calculate_energy_used
                (moving_40\<lparr>is_continuous := False,
                   last_bearing := Some (bearing_between_points p0 (p_north 1000))\<rparr>) 100 1000 of
           (s2, energy) \<Rightarrow>
             (case accumulate s2 (MAXIMUM_SPEED_MS * (real_of_int 1000 / 1000)) energy of
                Inl e \<Rightarrow> Inl e
              | Inr s3 \<Rightarrow> Inr (s3\<lparr>last_point := Some (p_north 1000)\<rparr>)))"
    by blast
  then have upd: "on_gps_update moving_40 (Some 100) (Some 1000) (Some (1 / 1000)) (Some 0)
      = Inr clamped_40"
    by (simp add: bearing_north MAXIMUM_SPEED_MS_def energy_moving_40 accumulate_moving_40)
       (simp add: p_north_def clamped_40_def)
  from last_point_moving_40 haversine_north [of 1000] lo hi no calc upd show ?thesis
    by blast
qed

text \<open>
  C4, counterexample. Under way with last bearing 90, a sample 111 m to the north after ten
  seconds passes the minimum speed check and is within the maximum speed, yet the filter
  returns no distance and sets the flag to false: the bearing turned by 90 degrees.
\<close>

theorem filter_clamps_counterexample:
  "last_point moving_40 = Some p0
   \<and> haversine_distance_in_meter p0 (p_north 10000) = Inr (6371 * pi / 180)
   \<and> MINIMUM_SPEED_MS * (real_of_int 10000 / 1000) \<le> 6371 * pi / 180
   \<and> 6371 * pi / 180 \<le> MAXIMUM_SPEED_MS * (real_of_int 10000 / 1000)
   \<and> calculate_distance_traveled moving_40 (p_north 10000) 10000
       = Inr (moving_40\<lparr>is_continuous := False, last_bearing := None\<rparr>, None)"
proof -
  have lo: "MINIMUM_SPEED_MS * (real_of_int 10000 / 1000) \<le> 6371 * pi / 180"
    using raw_north_bounds by (simp add: MINIMUM_SPEED_MS_def)
  have hi: "6371 * pi / 180 \<le> MAXIMUM_SPEED_MS * (real_of_int 10000 / 1000)"
    using raw_north_bounds by (simp add: MAXIMUM_SPEED_MS_def)
  have "bearing_check_rejects moving_40 p0 (p_north 10000) 10000 (6371 * pi / 180)"
    using raw_north_bounds
    by (simp add: bearing_check_rejects_def moving_40_def bearing_north float_mod_def
        MAXIMUM_SPEED_MS_def BEARING_CHECK_MINIMUM_DISTANCE_M_def
        BEARING_CHECK_THRESHOLD_DEGREES_def)
  from filter_rejects [OF last_point_moving_40 haversine_north lo this]
    last_point_moving_40 haversine_north [of 10000] lo hi
  show ?thesis by blast
qed

text \<open>
  C6. When a previous bearing is known, the sample passed the minimum speed check and is
  within the maximum speed (so \<^verbatim>\<open>is_continuous\<close> was set to true), the clamped distance is
  at least one metre and the shortest angular difference to the previous bearing is at least
  45 degrees, the filter returns no distance, sets \<^verbatim>\<open>is_continuous\<close> to false and forgets
  \<^verbatim>\<open>last_bearing\<close>.
\<close>

theorem bearing_discontinuity_rejects:
  assumes "last_point s = Some lp"
    and "haversine_distance_in_meter lp pt = Inr distance_raw"
    and "MINIMUM_SPEED_MS * (real_of_int dt / 1000) \<le> distance_raw"
    and "last_bearing s = Some lb"
    and "distance_raw \<le> MAXIMUM_SPEED_MS * (real_of_int dt / 1000)"
    and "BEARING_CHECK_MINIMUM_DISTANCE_M
           \<le> min distance_raw (MAXIMUM_SPEED_MS * (real_of_int dt / 1000))"
    and "BEARING_CHECK_THRESHOLD_DEGREES
           \<le> \<bar>float_mod (bearing_between_points lp pt - lb + 540) 360 - 180\<bar>"
  shows "calculate_distance_traveled s pt dt
       = Inr (s\<lparr>is_continuous := False, last_bearing := None\<rparr>, None)"
  using assms by (simp add: calculate_distance_traveled_def Let_def)

theorem bearing_discontinuity_rejects_witness:
  "last_point moving_40 = Some p0
   \<and> haversine_distance_in_meter p0 (p_north 8000) = Inr (6371 * pi / 180)
   \<and> MINIMUM_SPEED_MS * (real_of_int 8000 / 1000) \<le> 6371 * pi / 180
   \<and> last_bearing moving_40 = Some 90
   \<and> 6371 * pi / 180 \<le> MAXIMUM_SPEED_MS * (real_of_int 8000 / 1000)
   \<and> BEARING_CHECK_MINIMUM_DISTANCE_M
        \<le> min (6371 * pi / 180) (MAXIMUM_SPEED_MS * (real_of_int 8000 / 1000))
   \<and> \<bar>float_mod (bearing_between_points p0 (p_north 8000) - 90 + 540) 360 - 180\<bar> = 90
   \<and> BEARING_CHECK_THRESHOLD_DEGREES \<le> 90
   \<and> calculate_distance_traveled moving_40 (p_north 8000) 8000
       = Inr (moving_40\<lparr>is_continuous := False, last_bearing := None\<rparr>, None)"
proof -
  have lo: "MINIMUM_SPEED_MS * (real_of_int 8000 / 1000) \<le> 6371 * pi / 180"
    using raw_north_bounds by (simp add: MINIMUM_SPEED_MS_def)
  have lb: "last_bearing moving_40 = Some 90"
    by (simp add: moving_40_def)
  have hi: "6371 * pi / 180 \<le> MAXIMUM_SPEED_MS * (real_of_int 8000 / 1000)"
    using raw_north_bounds by (simp add: MAXIMUM_SPEED_MS_def)
  have far: "BEARING_CHECK_MINIMUM_DISTANCE_M
        \<le> min (6371 * pi / 180) (MAXIMUM_SPEED_MS * (real_of_int 8000 / 1000))"
    using raw_north_bounds
    by (simp add: BEARING_CHECK_MINIMUM_DISTANCE_M_def MAXIMUM_SPEED_MS_def)
  have diff: "\<bar>float_mod (bearing_between_points p0 (p_north 8000) - 90 + 540) 360 - 180\<bar> = 90"
    by (simp add: bearing_north float_mod_def)
  have thr: "BEARING_CHECK_THRESHOLD_DEGREES \<le> 90"
    by (simp add: BEARING_CHECK_THRESHOLD_DEGREES_def)
  with diff have turn: "BEARING_CHECK_THRESHOLD_DEGREES
        \<le> \<bar>float_mod (bearing_between_points p0 (p_north 8000) - 90 + 540) 360 - 180\<bar>"
    by simp
  from bearing_discontinuity_rejects [OF last_point_moving_40 haversine_north lo lb hi far turn]
    last_point_moving_40 haversine_north [of 8000] lo lb hi far diff thr
  show ?thesis by blast
qed


text \<open>
  C5 (as amended). A sample whose raw distance is below the minimum distance makes the filter
  return no distance and set \<^verbatim>\<open>is_continuous\<close> to false. The filter returns before the
  bearing is computed: \<^verbatim>\<open>last_bearing\<close> keeps the value it had, and nothing else changes.
\<close>

theorem slow_sample_rejected:
  assumes "last_point s = Some lp"
    and "haversine_distance_in_meter lp pt = Inr distance_raw"
    and "distance_raw < MINIMUM_SPEED_MS * (real_of_int dt / 1000)"
  shows "calculate_distance_traveled s pt dt = Inr (s\<lparr>is_continuous := False\<rparr>, None)
     \<and> last_bearing (s\<lparr>is_continuous := False\<rparr>) = last_bearing s"
  using assms by (simp add: calculate_distance_traveled_def Let_def)

lemma last_point_started: "last_point started = Some p0"
  by (simp add: started_def)

theorem slow_sample_rejected_witness:
  "last_point started = Some p0
   \<and> haversine_distance_in_meter p0 (p0\<lparr>utc_time := 1000\<rparr>) = Inr 0
   \<and> 0 < MINIMUM_SPEED_MS * (real_of_int 1000 / 1000)
   \<and> calculate_distance_traveled started (p0\<lparr>utc_time := 1000\<rparr>) 1000
       = Inr (started\<lparr>is_continuous := False\<rparr>, None)"
proof -
  have hav: "haversine_distance_in_meter p0 (p0\<lparr>utc_time := 1000\<rparr>) = Inr 0"
    by (simp add: haversine_distance_in_meter_def radians_def py_sqrt_def atan2_def Let_def)
  have slow: "0 < MINIMUM_SPEED_MS * (real_of_int 1000 / 1000)"
    by (simp add: MINIMUM_SPEED_MS_def)
  from slow_sample_rejected [OF last_point_started hav slow] last_point_started hav slow
  show ?thesis by blast
qed

text \<open>
  C5, counterexample. After a first sample at the origin, a second sample at the same place
  one second later is rejected by the minimum speed check; \<^verbatim>\<open>last_bearing\<close> is unknown
  after the filter and after \<^verbatim>\<open>_on_gps_update\<close>, not the bearing between the two points.
\<close>

theorem slow_sample_rejected_counterexample:
  "on_gps_update init (Some 100) (Some 0) (Some 0) (Some 0) = Inr started
   \<and> haversine_distance_in_meter p0 (p0\<lparr>utc_time := 1000\<rparr>) = Inr 0
   \<and> 0 < MINIMUM_SPEED_MS * (real_of_int 1000 / 1000)
   \<and> calculate_distance_traveled started (p0\<lparr>utc_time := 1000\<rparr>) 1000
       = Inr (started\<lparr>is_continuous := False\<rparr>, None)
   \<and> last_bearing (started\<lparr>is_continuous := False\<rparr>)
       \<noteq> Some (bearing_between_points p0 (p0\<lparr>utc_time := 1000\<rparr>))
   \<and> on_gps_update started (Some 100) (Some 1000) (Some 0) (Some 0)
       = Inr (started\<lparr>last_point := Some (p0\<lparr>utc_time := 1000\<rparr>)\<rparr>)
   \<and> last_bearing (started\<lparr>last_point := Some (p0\<lparr>utc_time := 1000\<rparr>)\<rparr>) = None"
proof -
  have first: "on_gps_update init (Some 100) (Some 0) (Some 0) (Some 0) = Inr started"
    by (simp add: on_gps_update_def calculate_distance_traveled_def calculate_energy_used_def
        init_def started_def p0_def Let_def)
  have hav: "haversine_distance_in_meter p0 (p0\<lparr>utc_time := 1000\<rparr>) = Inr 0"
    by (simp add: haversine_distance_in_meter_def radians_def py_sqrt_def atan2_def Let_def)
  have slow: "0 < MINIMUM_SPEED_MS * (real_of_int 1000 / 1000)"
    by (simp add: MINIMUM_SPEED_MS_def)
  have calc: "calculate_distance_traveled started (p0\<lparr>utc_time := 1000\<rparr>) 1000
       = Inr (started\<lparr>is_continuous := False\<rparr>, None)"
    using hav slow by (simp add: calculate_distance_traveled_def last_point_started Let_def)
  have lb: "last_bearing (started\<lparr>is_continuous := False\<rparr>)
       \<noteq> Some (bearing_between_points p0 (p0\<lparr>utc_time := 1000\<rparr>))"
    by (simp add: started_def init_def)
  have pt: "\<lparr>utc_time = 1000, latitude = 0, longitude = 0\<rparr> = p0\<lparr>utc_time := 1000\<rparr>"
    by (simp add: p0_def)
  have t0: "utc_time p0 = 0"
    by (simp add: p0_def)
  have same: "started\<lparr>is_continuous := False\<rparr> = started"
    by (simp add: started_def init_def)
  have en: "calculate_energy_used started 100 1000 = (started, 1 / 36)"
    by (simp add: calculate_energy_used_def started_def Let_def)
  have second: "on_gps_update started (Some 100) (Some 1000) (Some 0) (Some 0)
       = Inr (started\<lparr>last_point := Some (p0\<lparr>utc_time := 1000\<rparr>)\<rparr>)"
    by (simp add: on_gps_update_def pt calc last_point_started t0 same en Let_def)
  have none: "last_bearing (started\<lparr>last_point := Some (p0\<lparr>utc_time := 1000\<rparr>)\<rparr>) = None"
    by (simp add: started_def init_def)
  from first hav slow calc lb second none show ?thesis by blast
qed

text \<open>
  C7 (as amended). With \<open>dt = 0\<close> and a previous average, \<open>alpha\<close> is \<open>1 - exp 0 = 0\<close>: the
  average keeps its value, whatever the power sample is, and the energy returned is zero.
\<close>

theorem zero_dt_keeps_ema:
  assumes "power_ema s = Some pe"
  shows "calculate_energy_used s power_w 0 = (s, 0)"
  using assms by (simp add: calculate_energy_used_def Let_def)

theorem zero_dt_keeps_ema_witness:
  "power_ema started = Some 100 \<and> calculate_energy_used started 200 0 = (started, 0)"
proof -
  have "power_ema started = Some 100" by (simp add: started_def)
  with zero_dt_keeps_ema [of started 100 200] show ?thesis by simp
qed

text \<open>
  C7, counterexample. With a previous average of 100 W, a sample of 200 W and \<open>dt = 0\<close> the
  average stays at 100 W; it does not become 200 W.
\<close>

theorem zero_dt_keeps_ema_counterexample:
  "power_ema started = Some 100
   \<and> power_ema (fst (calculate_energy_used started 200 0)) = Some 100
   \<and> power_ema (fst (calculate_energy_used started 200 0)) \<noteq> Some 200"
  by (simp add: calculate_energy_used_def started_def Let_def)

text \<open>
  C8. When the power, the time, the latitude or the longitude is absent, \<^verbatim>\<open>_on_gps_update\<close>
  sets \<^verbatim>\<open>last_point\<close>, \<^verbatim>\<open>last_bearing\<close> and \<^verbatim>\<open>power_ema\<close> to unknown and
  \<^verbatim>\<open>is_continuous\<close> to false, and leaves the ring, the write index and both totals as they
  were.
\<close>

theorem missing_input_resets:
  assumes "power_w = None \<or> utc = None \<or> lat = None \<or> lon = None"
  shows "on_gps_update s power_w utc lat lon
       = Inr (s\<lparr>is_continuous := False, last_point := None, last_bearing := None,
                power_ema := None\<rparr>)
     \<and> (\<exists>s'. on_gps_update s power_w utc lat lon = Inr s'
           \<and> last_point s' = None \<and> last_bearing s' = None \<and> power_ema s' = None
           \<and> \<not> is_continuous s'
           \<and> consumption_window s' = consumption_window s
           \<and> consumption_window_index s' = consumption_window_index s
           \<and> consumption_window_total_distance s' = consumption_window_total_distance s
           \<and> consumption_window_total_energy s' = consumption_window_total_energy s)"
  using assms by (auto simp: on_gps_update_def split: option.splits)

theorem missing_input_resets_witness:
  "on_gps_update moving_40 None (Some 1000) (Some 0) (Some 0)
     = Inr (after_40\<lparr>last_bearing := None, power_ema := None\<rparr>)
   \<and> on_gps_update moving_40 (Some 100) (Some 1000) None (Some 0)
     = Inr (after_40\<lparr>last_bearing := None, power_ema := None\<rparr>)"
proof -
  have "moving_40\<lparr>is_continuous := False, last_point := None, last_bearing := None,
                  power_ema := None\<rparr> = after_40\<lparr>last_bearing := None, power_ema := None\<rparr>"
    by (simp add: moving_40_def after_40_def init_def)
  with missing_input_resets [of None "Some 1000" "Some 0" "Some 0" moving_40]
    missing_input_resets [of "Some 100" "Some 1000" None "Some 0" moving_40]
  show ?thesis by simp
qed

text \<open>
  C9. \<^verbatim>\<open>update_values\<close> writes the consumption exactly when the distance total is
  positive, and then it is the energy total divided by the distance total in kilometres;
  otherwise the dictionary is returned as it came. On a new object nothing is written.
\<close>

theorem update_values_reports:
  "update_values s newvalues (PREFIX @ ''/Consumption'')
     = (if 0 < consumption_window_total_distance s
        then Some (consumption_window_total_energy s
                   / (consumption_window_total_distance s / 1000))
        else newvalues (PREFIX @ ''/Consumption''))
   \<and> (update_values s Map.empty (PREFIX @ ''/Consumption'') \<noteq> None
        \<longleftrightarrow> 0 < consumption_window_total_distance s)
   \<and> update_values init Map.empty = Map.empty"
  by (simp add: update_values_def init_def)

theorem update_values_reports_witness:
  "update_values after_40 Map.empty (PREFIX @ ''/Consumption'') = Some 50
   \<and> update_values init Map.empty (PREFIX @ ''/Consumption'') = None"
  using update_values_reports [of after_40 Map.empty] update_values_reports [of init Map.empty]
  by (simp add: after_40_def init_def)

end
